theory Spec2Isabelle
  imports Complex_Main
begin

section \<open>JavaScript values used by the weather core\<close>

text \<open>
  A JavaScript number is an IEEE double. The functions below only ever compare a number
  with a literal that a double holds exactly, and comparison of finite doubles is the
  comparison of the reals they denote, so a number is modelled as a real, one of the two
  infinities, or NaN. A field that is missing reads as \<open>undefined\<close>, which a comparison
  converts to NaN. Every comparison with NaN is false.
\<close>

datatype jsnum = NaN | NInf | Fin real | PInf

fun js_lt :: "jsnum \<Rightarrow> jsnum \<Rightarrow> bool" where
  "js_lt NaN b = False"
| "js_lt a NaN = False"
| "js_lt (Fin a) (Fin b) = (a < b)"
| "js_lt a NInf = False"
| "js_lt NInf b = True"
| "js_lt PInf b = False"
| "js_lt (Fin a) PInf = True"

fun js_le :: "jsnum \<Rightarrow> jsnum \<Rightarrow> bool" where
  "js_le NaN b = False"
| "js_le a NaN = False"
| "js_le (Fin a) (Fin b) = (a \<le> b)"
| "js_le NInf b = True"
| "js_le a NInf = False"
| "js_le a PInf = True"
| "js_le PInf b = False"

definition js_gt :: "jsnum \<Rightarrow> jsnum \<Rightarrow> bool" where
  "js_gt a b = js_lt b a"

definition js_ge :: "jsnum \<Rightarrow> jsnum \<Rightarrow> bool" where
  "js_ge a b = js_le b a"

text \<open>Truthiness of a number: \<open>0\<close> and NaN are falsy.\<close>

fun js_truthy :: "jsnum \<Rightarrow> bool" where
  "js_truthy NaN = False"
| "js_truthy (Fin x) = (x \<noteq> 0)"
| "js_truthy NInf = True"
| "js_truthy PInf = True"

text \<open>
  Strings are lists of 8-bit characters, that is, of the code units below 256.
  \<open>String.prototype.includes\<close> and an unanchored literal regular expression both ask
  whether the pattern occurs as a contiguous substring.
\<close>

fun startsWith :: "string \<Rightarrow> string \<Rightarrow> bool" where
  "startsWith s [] = True"
| "startsWith [] (p # ps) = False"
| "startsWith (c # cs) (p # ps) = (c = p \<and> startsWith cs ps)"

fun js_includes :: "string \<Rightarrow> string \<Rightarrow> bool" where
  "js_includes [] pat = startsWith [] pat"
| "js_includes (c # cs) pat = (startsWith (c # cs) pat \<or> js_includes cs pat)"

text \<open>
  \<open>toLowerCase\<close> on code units below 256: the letters A to Z and the Latin-1 capitals
  (0xC0 to 0xDE without the multiplication sign 0xD7) move up by 32.
\<close>

definition lowerChar :: "char \<Rightarrow> char" where
  "lowerChar c =
     (let n = (of_char c :: nat)
      in if (65 \<le> n \<and> n \<le> 90) \<or> (192 \<le> n \<and> n \<le> 222 \<and> n \<noteq> 215)
         then char_of (n + 32) else c)"

definition toLowerCase :: "string \<Rightarrow> string" where
  "toLowerCase s = map lowerChar s"

text \<open>
  Case folding of a regular expression with the \<open>i\<close> flag (without \<open>u\<close>): both sides are
  upper-cased, and a code unit from 128 on never folds to one below 128. All patterns of
  the source are ASCII, so folding a to z is exact for them.
\<close>

definition canonicalize :: "char \<Rightarrow> char" where
  "canonicalize c =
     (let n = (of_char c :: nat)
      in if 97 \<le> n \<and> n \<le> 122 then char_of (n - 32) else c)"

fun startsWithI :: "string \<Rightarrow> string \<Rightarrow> bool" where
  "startsWithI s [] = True"
| "startsWithI [] (p # ps) = False"
| "startsWithI (c # cs) (p # ps) = (canonicalize c = canonicalize p \<and> startsWithI cs ps)"

fun js_includesI :: "string \<Rightarrow> string \<Rightarrow> bool" where
  "js_includesI [] pat = startsWithI [] pat"
| "js_includesI (c # cs) pat = (startsWithI (c # cs) pat \<or> js_includesI cs pat)"

section \<open>Comfort score (\<open>scoreWeather\<close>)\<close>

text \<open>
  The fields of the weather payload that the scoring, alert and gear rules read:
  \<open>main.temp\<close>, \<open>main.humidity\<close>, \<open>wind.speed\<close> and \<open>weather[0].main\<close>.
\<close>

record weather =
  temp :: jsnum
  humidity :: jsnum
  wind :: jsnum
  condition :: string

text \<open>
  \<open>scoreSum\<close> is the value of the variable \<open>score\<close> when the \<open>return\<close> is reached;
  it only ever holds small integers, so its arithmetic is exact. The condition test
  \<open>/Rain|Snow|Thunder/\<close> carries no flag.
\<close>

definition conditionMatch :: "string \<Rightarrow> bool" where
  "conditionMatch c = (js_includes c ''Rain'' \<or> js_includes c ''Snow'' \<or> js_includes c ''Thunder'')"

definition scoreSum :: "weather \<Rightarrow> real" where
  "scoreSum d =
     (let score = 5;
          t = temp d;
          hum = humidity d;
          score = (if js_ge t (Fin 18) \<and> js_le t (Fin 26) then score + 3
                   else if js_ge t (Fin 10) \<and> js_lt t (Fin 18) then score + 1
                   else if js_gt t (Fin 26) \<and> js_le t (Fin 32) then score + 1
                   else score);
          score = (if js_ge hum (Fin 30) \<and> js_le hum (Fin 60) then score + 2 else score);
          score = (if js_gt t (Fin 35) \<or> js_lt t (Fin 0) then score - 3 else score);
          score = (if js_gt hum (Fin 80) then score - 1 else score);
          score = (if conditionMatch (condition d) then score - 2 else score)
      in score)"

definition scoreWeather :: "weather \<Rightarrow> real" where
  "scoreWeather d = min 10 (max 0 (scoreSum d))"

section \<open>Smart alerts (\<open>getSmartAlerts\<close>)\<close>

text \<open>
  The alert texts contain a dash outside the 8-bit character range, so each message is a
  constructor; the twelve texts of the source are pairwise different:
  \<^item> \<open>ExtremeHeat\<close>: Extreme heat warning - stay indoors and hydrate.
  \<^item> \<open>HighHeat\<close>: High heat advisory - avoid prolonged sun exposure.
  \<^item> \<open>SevereCold\<close>: Severe cold warning - frostbite risk.
  \<^item> \<open>ColdAdvisory\<close>: Cold advisory - dress warmly.
  \<^item> \<open>StrongWind\<close>: Strong wind advisory - secure loose objects.
  \<^item> \<open>VeryHighHumidity\<close>: Very high humidity - may feel uncomfortable.
  \<^item> \<open>ThunderstormWarning\<close>: Thunderstorm warning - stay indoors.
  \<^item> \<open>Snowfall\<close>: Snowfall - drive cautiously.
  \<^item> \<open>HeavyRainWind\<close>: Heavy rain with wind - carry sturdy umbrella.
  \<^item> \<open>PoorAir\<close>: Air quality is poor - wear a mask outdoors.
  \<^item> \<open>HazardousAir\<close>: Hazardous air quality - avoid all outdoor activities.
  \<^item> \<open>Challenging\<close>: Overall conditions are challenging - plan accordingly.
\<close>

datatype alert =
  ExtremeHeat | HighHeat | SevereCold | ColdAdvisory | StrongWind | VeryHighHumidity
| ThunderstormWarning | Snowfall | HeavyRainWind | PoorAir | HazardousAir | Challenging

text \<open>
  The air-quality argument is \<open>None\<close> when \<open>aqiData && aqiData.list\<close> is falsy, and
  otherwise carries \<open>aqiData.list[0].main.aqi\<close>. \<open>alerts.push\<close> appends at the end.
\<close>

definition getSmartAlerts :: "weather \<Rightarrow> jsnum option \<Rightarrow> jsnum \<Rightarrow> alert list" where
  "getSmartAlerts d aqiData score =
     (let alerts = [];
          t = temp d;
          hum = humidity d;
          w = wind d;
          c = condition d;
          alerts = (if js_gt t (Fin 40) then alerts @ [ExtremeHeat]
                    else if js_gt t (Fin 35) then alerts @ [HighHeat] else alerts);
          alerts = (if js_lt t (Fin (- 5)) then alerts @ [SevereCold]
                    else if js_lt t (Fin 5) then alerts @ [ColdAdvisory] else alerts);
          alerts = (if js_gt w (Fin 15) then alerts @ [StrongWind] else alerts);
          alerts = (if js_gt hum (Fin 85) then alerts @ [VeryHighHumidity] else alerts);
          alerts = (if js_includesI c ''Thunder'' then alerts @ [ThunderstormWarning] else alerts);
          alerts = (if js_includesI c ''Snow'' then alerts @ [Snowfall] else alerts);
          alerts = (if js_includesI c ''Rain'' \<and> js_gt w (Fin 10)
                    then alerts @ [HeavyRainWind] else alerts);
          alerts = (case aqiData of
                      None \<Rightarrow> alerts
                    | Some aqi \<Rightarrow>
                        (let alerts = (if js_ge aqi (Fin 4) then alerts @ [PoorAir] else alerts);
                             alerts = (if js_ge aqi (Fin 5) then alerts @ [HazardousAir]
                                       else alerts)
                         in alerts));
          alerts = (if js_lt score (Fin 3) then alerts @ [Challenging] else alerts)
      in alerts)"

section \<open>Gear rules of the \<open>/api/places\<close> handler\<close>

text \<open>
  The handler reads \<open>temp\<close>, \<open>condition\<close> and \<open>uv\<close> from the request body. The numbers
  are given by their numeric value (a missing field is NaN, \<open>null\<close> is 0), for which
  truthiness and comparison agree with the source; a missing condition is \<open>None\<close> and
  \<open>condition || ''\<close> makes it the empty string.
\<close>

record gear_item =
  item :: string
  reason :: string

definition gear :: "jsnum \<Rightarrow> string option \<Rightarrow> jsnum \<Rightarrow> gear_item list" where
  "gear t cnd uv =
     (let gear = [];
          gear = (if js_truthy uv \<and> js_gt uv (Fin 5)
                  then gear @ [\<lparr>item = ''Sunscreen'', reason = ''High UV index''\<rparr>,
                               \<lparr>item = ''Hat/Sunglasses'', reason = ''Sun protection''\<rparr>]
                  else gear);
          cond = toLowerCase (case cnd of None \<Rightarrow> [] | Some c \<Rightarrow> c);
          gear = (if js_includes cond ''rain'' \<or> js_includes cond ''drizzle''
                     \<or> js_includes cond ''thunder''
                  then gear @ [\<lparr>item = ''Umbrella'', reason = ''Rain expected''\<rparr>] else gear);
          gear = (if js_includes cond ''snow''
                  then gear @ [\<lparr>item = ''Boots'', reason = ''Snowy conditions''\<rparr>] else gear);
          gear = (if js_lt t (Fin 15)
                  then gear @ [\<lparr>item = ''Coat/Jacket'', reason = ''Chilly temperatures''\<rparr>]
                  else if js_gt t (Fin 30)
                  then gear @ [\<lparr>item = ''Water Bottle'', reason = ''Stay hydrated in heat''\<rparr>]
                  else gear);
          gear = (if length gear = 0
                  then gear @ [\<lparr>item = ''Comfortable Shoes'', reason = ''Good for walking''\<rparr>]
                  else gear)
      in gear)"

section \<open>Response cache (\<open>getCached\<close>, \<open>setCache\<close>)\<close>

text \<open>
  \<open>aiCache\<close> is a module-level \<open>Map\<close>; the model passes it explicitly, and passes the
  reading of \<open>Date.now()\<close> (milliseconds) as \<open>now\<close>. \<open>getCached\<close> returns the value
  (\<open>None\<close> for \<open>null\<close>) together with the cache it leaves behind.
\<close>

record entry =
  data :: string
  ts :: int

type_synonym cache = "string \<rightharpoonup> entry"

definition CACHE_TTL :: int where
  "CACHE_TTL = 15 * 60 * 1000"

definition getCached :: "int \<Rightarrow> string \<Rightarrow> cache \<Rightarrow> string option \<times> cache" where
  "getCached now key aiCache =
     (case aiCache key of
        None \<Rightarrow> (None, aiCache)
      | Some e \<Rightarrow>
          if now - ts e > CACHE_TTL then (None, aiCache(key := None))
          else (Some (data e), aiCache))"

definition setCache :: "int \<Rightarrow> string \<Rightarrow> string \<Rightarrow> cache \<Rightarrow> cache" where
  "setCache now key d aiCache = aiCache(key \<mapsto> \<lparr>data = d, ts = now\<rparr>)"

text \<open>The cache key of the \<open>/api/compare-verdict\<close> handler, from the two city names.\<close>

definition compareKey :: "string \<Rightarrow> string \<Rightarrow> string" where
  "compareKey nameA nameB = ''compare_'' @ toLowerCase nameA @ ''_'' @ toLowerCase nameB"

section \<open>Travel advice parser (\<open>renderTravelAdvice\<close>)\<close>

text \<open>
  White space, for \<open>trim\<close> and for \<open>\s\<close>: TAB, LF, VT, FF, CR, space and the no-break
  space (the other Unicode spaces lie beyond the 8-bit range). The dot of a regular
  expression without the \<open>s\<close> flag stops at a line terminator, LF or CR.
\<close>

definition isSpace :: "char \<Rightarrow> bool" where
  "isSpace c = (c \<in> set [CHR 0x09, CHR 0x0A, CHR 0x0B, CHR 0x0C, CHR 0x0D, CHR 0x20, CHR 0xA0])"

definition isLineTerminator :: "char \<Rightarrow> bool" where
  "isLineTerminator c = (c = CHR 0x0A \<or> c = CHR 0x0D)"

definition isDigit :: "char \<Rightarrow> bool" where
  "isDigit c = (c \<in> set ''0123456789'')"

definition trim :: "string \<Rightarrow> string" where
  "trim s = rev (dropWhile isSpace (rev (dropWhile isSpace s)))"

text \<open>\<open>text.split('\n')\<close>: the pieces between line feeds; the empty text is one empty piece.\<close>

fun splitLines :: "string \<Rightarrow> string list" where
  "splitLines [] = [[]]"
| "splitLines (c # cs) =
     (if c = CHR 0x0A then [] # splitLines cs
      else (case splitLines cs of l # ls \<Rightarrow> (c # l) # ls | [] \<Rightarrow> [[c]]))"

datatype sectionKey = PLACES | NEARBY | WEAR | EAT | ALERT

fun labelOf :: "sectionKey \<Rightarrow> string" where
  "labelOf PLACES = ''PLACES''"
| "labelOf NEARBY = ''NEARBY''"
| "labelOf WEAR = ''WEAR''"
| "labelOf EAT = ''EAT''"
| "labelOf ALERT = ''ALERT''"

text \<open>
  The line pattern \<open>/^(PLACES|NEARBY|WEAR|EAT|ALERT)\s*:\s*(.*)/i\<close>. \<open>afterLabel\<close> is one
  alternative: the label in any letter case, white space, a colon, white space, and then,
  as group 2, the characters up to the first line terminator. The alternatives are tried
  in the order of the pattern. The matched label, upper-cased, is the key; the key is
  given as the constructor.
\<close>

definition afterLabel :: "string \<Rightarrow> string \<Rightarrow> string option" where
  "afterLabel lbl s =
     (if startsWithI s lbl
      then (case dropWhile isSpace (drop (length lbl) s) of
              [] \<Rightarrow> None
            | c # r \<Rightarrow>
                if c = CHR '':''
                then Some (takeWhile (\<lambda>c. \<not> isLineTerminator c) (dropWhile isSpace r))
                else None)
      else None)"

fun firstLabel :: "sectionKey list \<Rightarrow> string \<Rightarrow> (sectionKey \<times> string) option" where
  "firstLabel [] s = None"
| "firstLabel (k # ks) s =
     (case afterLabel (labelOf k) s of
        Some rest \<Rightarrow> Some (k, rest)
      | None \<Rightarrow> firstLabel ks s)"

definition sectionMatch :: "string \<Rightarrow> (sectionKey \<times> string) option" where
  "sectionMatch s = firstLabel [PLACES, NEARBY, WEAR, EAT, ALERT] s"

text \<open>
  The body of the loop over the lines. The state is \<open>currentKey\<close> (\<open>None\<close> for the empty
  string) and the object \<open>sections\<close>, a map from keys to lists of lines.
\<close>

type_synonym sections = "sectionKey \<rightharpoonup> string list"

definition scanLine :: "sectionKey option \<times> sections \<Rightarrow> string \<Rightarrow> sectionKey option \<times> sections" where
  "scanLine st line =
     (let currentKey = fst st;
          sections = snd st;
          trimmed = trim line
      in if trimmed = [] then st
         else (case sectionMatch trimmed of
                 Some (k, rest) \<Rightarrow> (Some k, sections(k \<mapsto> (if rest \<noteq> [] then [rest] else [])))
               | None \<Rightarrow>
                   (case currentKey of
                      Some k \<Rightarrow>
                        (Some k,
                         sections(k \<mapsto> (case sections k of Some ls \<Rightarrow> ls | None \<Rightarrow> [])
                                          @ [trimmed]))
                    | None \<Rightarrow> st)))"

definition scanSections :: "string \<Rightarrow> sections" where
  "scanSections text = snd (foldl scanLine (None, Map.empty) (splitLines text))"

text \<open>
  The place pattern \<open>/^\d+\.\s*(.+?)\s*D\s*(.+)$/\<close>, where \<open>D\<close> stands for the character
  class of the hyphen and the en dash: one function for each part, each trying its choices
  in the order of a backtracking matcher and handing the rest of the input to the next
  part. The en dash lies beyond the 8-bit range, so only the hyphen is a case here.

  \<open>restAll\<close> is \<open>(.+)$\<close>: the whole rest, not empty and without a line terminator.
\<close>

definition restAll :: "string \<Rightarrow> string option" where
  "restAll s = (if s \<noteq> [] \<and> list_all (\<lambda>c. \<not> isLineTerminator c) s then Some s else None)"

text \<open>\<open>\s*(.+)$\<close>: the greedy white space gives characters back when the rest fails.\<close>

fun descTail :: "string \<Rightarrow> string option" where
  "descTail [] = restAll []"
| "descTail (c # cs) =
     (if isSpace c
      then (case descTail cs of Some d \<Rightarrow> Some d | None \<Rightarrow> restAll (c # cs))
      else restAll (c # cs))"

definition dashHere :: "string \<Rightarrow> string option" where
  "dashHere s = (case s of [] \<Rightarrow> None | c # cs \<Rightarrow> if c = CHR ''-'' then descTail cs else None)"

text \<open>\<open>\s*D\s*(.+)$\<close>: white space, the dash, and the description.\<close>

fun dashTail :: "string \<Rightarrow> string option" where
  "dashTail [] = dashHere []"
| "dashTail (c # cs) =
     (if isSpace c
      then (case dashTail cs of Some d \<Rightarrow> Some d | None \<Rightarrow> dashHere (c # cs))
      else dashHere (c # cs))"

text \<open>
  \<open>(.+?)\<close> followed by the tail: the name \<open>acc\<close> grows by one character at a time, and
  stops at the first length for which the tail matches.
\<close>

fun lazyName :: "string \<Rightarrow> string \<Rightarrow> (string \<times> string) option" where
  "lazyName acc [] = (case dashTail [] of Some d \<Rightarrow> Some (acc, d) | None \<Rightarrow> None)"
| "lazyName acc (c # cs) =
     (case dashTail (c # cs) of
        Some d \<Rightarrow> Some (acc, d)
      | None \<Rightarrow> if isLineTerminator c then None else lazyName (acc @ [c]) cs)"

definition nameStart :: "string \<Rightarrow> (string \<times> string) option" where
  "nameStart s =
     (case s of [] \<Rightarrow> None | c # cs \<Rightarrow> if isLineTerminator c then None else lazyName [c] cs)"

text \<open>The white space before the name: greedy, given back on failure.\<close>

fun nameWs :: "string \<Rightarrow> (string \<times> string) option" where
  "nameWs [] = nameStart []"
| "nameWs (c # cs) =
     (if isSpace c
      then (case nameWs cs of Some r \<Rightarrow> Some r | None \<Rightarrow> nameStart (c # cs))
      else nameStart (c # cs))"

definition dotHere :: "string \<Rightarrow> (string \<times> string) option" where
  "dotHere s = (case s of [] \<Rightarrow> None | c # cs \<Rightarrow> if c = CHR ''.'' then nameWs cs else None)"

text \<open>The digits after the first one, then the dot.\<close>

fun digitsDot :: "string \<Rightarrow> (string \<times> string) option" where
  "digitsDot [] = dotHere []"
| "digitsDot (c # cs) =
     (if isDigit c
      then (case digitsDot cs of Some r \<Rightarrow> Some r | None \<Rightarrow> dotHere (c # cs))
      else dotHere (c # cs))"

text \<open>The whole pattern, anchored at the start: groups 1 and 2 of the match, if any.\<close>

definition placeMatch :: "string \<Rightarrow> (string \<times> string) option" where
  "placeMatch l =
     (case l of [] \<Rightarrow> None | c # cs \<Rightarrow> if isDigit c then digitsDot cs else None)"

text \<open>\<open>l.replace(/^\d+\.\s*/, '')\<close>: a leading number with its dot and white space is cut.\<close>

definition stripNumber :: "string \<Rightarrow> string" where
  "stripNumber l =
     (case l of
        [] \<Rightarrow> l
      | c # cs \<Rightarrow>
          if isDigit c
          then (case dropWhile isDigit cs of
                  [] \<Rightarrow> l
                | d # r \<Rightarrow> if d = CHR ''.'' then dropWhile isSpace r else l)
          else l)"

text \<open>\<open>replace(/[*]/g, '')\<close>\<close>

definition removeStars :: "string \<Rightarrow> string" where
  "removeStars s = filter (\<lambda>c. c \<noteq> CHR ''*'') s"

record place =
  name :: string
  desc :: string

text \<open>The function mapped over the lines; \<open>None\<close> is the \<open>null\<close> that \<open>filter(Boolean)\<close> drops.\<close>

definition parsePlace :: "string \<Rightarrow> place option" where
  "parsePlace l =
     (case placeMatch l of
        Some (n, d) \<Rightarrow> Some \<lparr>name = trim (removeStars n), desc = trim (removeStars d)\<rparr>
      | None \<Rightarrow>
          (let clean = trim (removeStars (stripNumber l))
           in if clean \<noteq> [] then Some \<lparr>name = clean, desc = []\<rparr> else None))"

definition parsePlaces :: "string list option \<Rightarrow> place list" where
  "parsePlaces lines = List.map_filter parsePlace (case lines of None \<Rightarrow> [] | Some ls \<Rightarrow> ls)"

text \<open>\<open>join(' ')\<close>\<close>

fun joinSpace :: "string list \<Rightarrow> string" where
  "joinSpace [] = []"
| "joinSpace [x] = x"
| "joinSpace (x # y # ys) = x @ '' '' @ joinSpace (y # ys)"

definition freeText :: "string list option \<Rightarrow> string" where
  "freeText lines =
     trim (removeStars (joinSpace (case lines of None \<Rightarrow> [] | Some ls \<Rightarrow> ls)))"

text \<open>
  The tips of the chip strip; the icons are emoji, given as constructors (coat, plate,
  warning sign).
\<close>

datatype tip_icon = CoatIcon | PlateIcon | WarningIcon

definition tipsOf :: "string \<Rightarrow> string \<Rightarrow> string \<Rightarrow> (tip_icon \<times> string) list" where
  "tipsOf wear eat alert =
     (let tips = [];
          tips = (if wear \<noteq> [] then tips @ [(CoatIcon, wear)] else tips);
          tips = (if eat \<noteq> [] then tips @ [(PlateIcon, eat)] else tips);
          tips = (if alert \<noteq> [] \<and> toLowerCase alert \<noteq> ''none'' \<and> toLowerCase alert \<noteq> ''none.''
                  then tips @ [(WarningIcon, alert)] else tips)
      in tips)"

text \<open>
  What \<open>renderTravelAdvice\<close> computes from the text before it builds the HTML: the two
  lists of places, the three free texts, and the tips that are shown.
\<close>

record advice =
  places :: "place list"
  nearby :: "place list"
  wear :: string
  eat :: string
  alert :: string
  tips :: "(tip_icon \<times> string) list"

definition renderTravelAdvice :: "string \<Rightarrow> advice" where
  "renderTravelAdvice text =
     (let sections = scanSections text;
          places = parsePlaces (sections PLACES);
          nearby = parsePlaces (sections NEARBY);
          wear = freeText (sections WEAR);
          eat = freeText (sections EAT);
          alert = freeText (sections ALERT)
      in \<lparr>places = places, nearby = nearby, wear = wear, eat = eat, alert = alert,
          tips = tipsOf wear eat alert\<rparr>)"

text \<open>
  The parser once more, with the steps of JavaScript that can fail written out. A property
  read from \<open>sections\<close> may be \<open>undefined\<close> (\<open>None\<close>); a method call on \<open>undefined\<close>
  raises a TypeError, which ends the function. \<open>orEmpty\<close> is the guard \<open>v || []\<close> (an
  array, even an empty one, is truthy), \<open>receiver\<close> the value a method is called on.
  On a string, \<open>split\<close>, \<open>trim\<close>, \<open>match\<close>, \<open>replace\<close> and \<open>toLowerCase\<close> always
  return, and both groups of either pattern take part in every match.
\<close>

datatype error = TypeError

definition orEmpty :: "string list option \<Rightarrow> string list option" where
  "orEmpty v = (case v of None \<Rightarrow> Some [] | Some ls \<Rightarrow> Some ls)"

definition receiver :: "'a option \<Rightarrow> error + 'a" where
  "receiver v = (case v of None \<Rightarrow> Inl TypeError | Some x \<Rightarrow> Inr x)"

definition andThen :: "error + 'a \<Rightarrow> ('a \<Rightarrow> error + 'b) \<Rightarrow> error + 'b" where
  "andThen r f = (case r of Inl e \<Rightarrow> Inl e | Inr x \<Rightarrow> f x)"

text \<open>
  The body of the loop: the assignment \<open>sections[currentKey] = sections[currentKey] || []\<close>
  and the call \<open>sections[currentKey].push(trimmed)\<close> are two steps.
\<close>

definition scanLine_exn ::
  "sectionKey option \<times> sections \<Rightarrow> string \<Rightarrow> error + (sectionKey option \<times> sections)" where
  "scanLine_exn st line =
     (let currentKey = fst st;
          sections = snd st;
          trimmed = trim line
      in if trimmed = [] then Inr st
         else (case sectionMatch trimmed of
                 Some (k, rest) \<Rightarrow>
                   Inr (Some k, sections(k \<mapsto> (if rest \<noteq> [] then [rest] else [])))
               | None \<Rightarrow>
                   (case currentKey of
                      Some k \<Rightarrow>
                        (let sections = sections(k := orEmpty (sections k))
                         in andThen (receiver (sections k))
                              (\<lambda>ls. Inr (Some k, sections(k \<mapsto> ls @ [trimmed]))))
                    | None \<Rightarrow> Inr st)))"

fun scanLines_exn ::
  "sectionKey option \<times> sections \<Rightarrow> string list \<Rightarrow> error + (sectionKey option \<times> sections)" where
  "scanLines_exn st [] = Inr st"
| "scanLines_exn st (line # lines) = andThen (scanLine_exn st line) (\<lambda>st'. scanLines_exn st' lines)"

definition scanSections_exn :: "string \<Rightarrow> error + sections" where
  "scanSections_exn text =
     andThen (scanLines_exn (None, Map.empty) (splitLines text)) (\<lambda>st. Inr (snd st))"

text \<open>\<open>(lines || []).map(\<dots>).filter(Boolean)\<close> and \<open>(sections.WEAR || []).join(' ')\<close>\<close>

definition parsePlaces_exn :: "string list option \<Rightarrow> error + place list" where
  "parsePlaces_exn lines =
     andThen (receiver (orEmpty lines)) (\<lambda>ls. Inr (List.map_filter parsePlace ls))"

definition freeText_exn :: "string list option \<Rightarrow> error + string" where
  "freeText_exn lines =
     andThen (receiver (orEmpty lines)) (\<lambda>ls. Inr (trim (removeStars (joinSpace ls))))"

definition renderTravelAdvice_exn :: "string \<Rightarrow> error + advice" where
  "renderTravelAdvice_exn text =
     andThen (scanSections_exn text) (\<lambda>sections.
     andThen (parsePlaces_exn (sections PLACES)) (\<lambda>places.
     andThen (parsePlaces_exn (sections NEARBY)) (\<lambda>nearby.
     andThen (freeText_exn (sections WEAR)) (\<lambda>wear.
     andThen (freeText_exn (sections EAT)) (\<lambda>eat.
     andThen (freeText_exn (sections ALERT)) (\<lambda>alert.
       Inr \<lparr>places = places, nearby = nearby, wear = wear, eat = eat, alert = alert,
            tips = tipsOf wear eat alert\<rparr>))))))"

section \<open>Verdict parser (\<open>renderVerdict\<close>)\<close>

text \<open>
  The three patterns \<open>/COMPARISON:\s*(.+?)(?=WINNER:|$)/s\<close>,
  \<open>/WINNER:\s*(.+?)(?=REASON:|$)/s\<close> and \<open>/REASON:\s*(.+?)$/s\<close> share one shape: a label,
  white space, and a lazy group of at least one character (any character, with the \<open>s\<close>
  flag) that stops in front of the next label, if the pattern names one, or at the end of
  the text. \<open>atStop\<close> is the look-ahead.
\<close>

definition atStop :: "string option \<Rightarrow> string \<Rightarrow> bool" where
  "atStop stop s = (s = [] \<or> (case stop of None \<Rightarrow> False | Some p \<Rightarrow> startsWith s p))"

fun lazyRest :: "string option \<Rightarrow> string \<Rightarrow> string" where
  "lazyRest stop [] = []"
| "lazyRest stop (c # cs) = (if atStop stop (c # cs) then [] else c # lazyRest stop cs)"

definition lazyCapture :: "string option \<Rightarrow> string \<Rightarrow> string option" where
  "lazyCapture stop s = (case s of [] \<Rightarrow> None | c # cs \<Rightarrow> Some (c # lazyRest stop cs))"

text \<open>The white space after the label: greedy, given back when the group finds nothing.\<close>

fun wsCapture :: "string option \<Rightarrow> string \<Rightarrow> string option" where
  "wsCapture stop [] = lazyCapture stop []"
| "wsCapture stop (c # cs) =
     (if isSpace c
      then (case wsCapture stop cs of Some g \<Rightarrow> Some g | None \<Rightarrow> lazyCapture stop (c # cs))
      else lazyCapture stop (c # cs))"

definition matchAt :: "string \<Rightarrow> string option \<Rightarrow> string \<Rightarrow> string option" where
  "matchAt lbl stop s = (if startsWith s lbl then wsCapture stop (drop (length lbl) s) else None)"

text \<open>\<open>text.match\<close>: the first position, from the left, at which the pattern matches.\<close>

fun regexSearch :: "string \<Rightarrow> string option \<Rightarrow> string \<Rightarrow> string option" where
  "regexSearch lbl stop [] = matchAt lbl stop []"
| "regexSearch lbl stop (c # cs) =
     (case matchAt lbl stop (c # cs) of
        Some g \<Rightarrow> Some g
      | None \<Rightarrow> regexSearch lbl stop cs)"

text \<open>A field: the trimmed group of its pattern, or the empty string it was initialised to.\<close>

definition field :: "string \<Rightarrow> string option \<Rightarrow> string \<Rightarrow> string" where
  "field lbl stop text = (case regexSearch lbl stop text of None \<Rightarrow> [] | Some g \<Rightarrow> trim g)"

definition comparisonOf :: "string \<Rightarrow> string" where
  "comparisonOf text = field ''COMPARISON:'' (Some ''WINNER:'') text"

definition winnerOf :: "string \<Rightarrow> string" where
  "winnerOf text = field ''WINNER:'' (Some ''REASON:'') text"

definition reasonOf :: "string \<Rightarrow> string" where
  "reasonOf text = field ''REASON:'' None text"

text \<open>\<open>text.replace(/\n/g, '<br>')\<close>\<close>

definition lineBreaks :: "string \<Rightarrow> string" where
  "lineBreaks text = concat (map (\<lambda>c. if c = CHR 0x0A then ''<br>'' else [c]) text)"

text \<open>
  What \<open>renderVerdict\<close> puts into the verdict card: the raw text (with its line breaks as
  \<open>br\<close> elements), or the comparison, the winner and the reason. The two city names it
  is passed are not used.
\<close>

datatype verdict_view = RawText string | Structured string string string

definition renderVerdict :: "string \<Rightarrow> verdict_view" where
  "renderVerdict text =
     (let comparison = comparisonOf text;
          winner = winnerOf text;
          reason = reasonOf text
      in if winner = [] then RawText (lineBreaks text)
         else Structured comparison winner reason)"

text \<open>
  The verdict fields in the words of the specification: the region of a label runs from
  the label to the start of the next label, or to the end of the text, and the field is
  that region, trimmed; a label that does not occur gives the empty field.
\<close>

fun afterFirst :: "string \<Rightarrow> string \<Rightarrow> string option" where
  "afterFirst lbl [] = (if startsWith [] lbl then Some [] else None)"
| "afterFirst lbl (c # cs) =
     (if startsWith (c # cs) lbl then Some (drop (length lbl) (c # cs)) else afterFirst lbl cs)"

fun upTo :: "string option \<Rightarrow> string \<Rightarrow> string" where
  "upTo nxt [] = []"
| "upTo nxt (c # cs) =
     (if (case nxt of None \<Rightarrow> False | Some p \<Rightarrow> startsWith (c # cs) p) then []
      else c # upTo nxt cs)"

definition specRegion :: "string \<Rightarrow> string option \<Rightarrow> string \<Rightarrow> string" where
  "specRegion lbl nxt text = (case afterFirst lbl text of None \<Rightarrow> [] | Some r \<Rightarrow> trim (upTo nxt r))"

definition specWinner :: "string \<Rightarrow> string" where
  "specWinner text = specRegion ''WINNER:'' (Some ''REASON:'') text"

section \<open>Properties of the comfort score\<close>

text \<open>
  C2. For every weather snapshot, whatever its temperature, humidity and condition string
  (NaN and the infinities included), the comfort score lies in the closed interval from 0
  to 10: it is the sum of the base and the adjustments, clamped once at the end.
\<close>

theorem scoreWeather_in_range:
  "0 \<le> scoreWeather d \<and> scoreWeather d \<le> 10"
  by (simp add: scoreWeather_def)

text \<open>Evaluation of character codes on literals.\<close>

lemmas char_eval = char_of_def bit_Suc_0_iff

lemma startsWith_iff: "startsWith s p \<longleftrightarrow> (\<exists>b. s = p @ b)"
  by (induction s p rule: startsWith.induct) auto

lemma js_includes_iff: "js_includes s p \<longleftrightarrow> (\<exists>a b. s = a @ p @ b)"
proof (induction s)
  case Nil
  show ?case by (auto simp: startsWith_iff)
next
  case (Cons c cs)
  have "(\<exists>a b. c # cs = a @ p @ b) \<longleftrightarrow> (\<exists>b. c # cs = p @ b) \<or> (\<exists>a b. cs = a @ p @ b)"
    by (auto simp: Cons_eq_append_conv)
  with Cons show ?case by (simp add: startsWith_iff)
qed

text \<open>
  C1 (as the code has it). The test \<open>/Rain|Snow|Thunder/\<close> is case-sensitive: whenever the
  condition contains Rain, Snow or Thunder in exactly this spelling, the sum is 2.0 lower
  than for the same readings under a clear sky, and the score is that sum clamped; for any
  other condition string nothing is subtracted.
\<close>

theorem scoreWeather_condition_penalty:
  "(js_includes (condition d) ''Rain'' \<or> js_includes (condition d) ''Snow''
      \<or> js_includes (condition d) ''Thunder''
    \<longrightarrow> scoreSum d = scoreSum (d\<lparr>condition := ''Clear''\<rparr>) - 2
        \<and> scoreWeather d = min 10 (max 0 (scoreSum (d\<lparr>condition := ''Clear''\<rparr>) - 2)))
   \<and> (\<not> (js_includes (condition d) ''Rain'' \<or> js_includes (condition d) ''Snow''
          \<or> js_includes (condition d) ''Thunder'')
    \<longrightarrow> scoreSum d = scoreSum (d\<lparr>condition := ''Clear''\<rparr>))"
  by (simp add: scoreSum_def scoreWeather_def conditionMatch_def Let_def)

theorem scoreWeather_condition_penalty_witness:
  "js_includes ''Thunderstorm'' ''Thunder''
   \<and> scoreSum \<lparr>temp = Fin 22, humidity = Fin 45, wind = Fin 3, condition = ''Thunderstorm''\<rparr>
       = scoreSum \<lparr>temp = Fin 22, humidity = Fin 45, wind = Fin 3, condition = ''Clear''\<rparr> - 2
   \<and> scoreWeather \<lparr>temp = Fin 22, humidity = Fin 45, wind = Fin 3, condition = ''Thunderstorm''\<rparr> = 8
   \<and> \<not> (js_includes ''Drizzle'' ''Rain'' \<or> js_includes ''Drizzle'' ''Snow''
          \<or> js_includes ''Drizzle'' ''Thunder'')
   \<and> scoreSum \<lparr>temp = Fin 22, humidity = Fin 45, wind = Fin 3, condition = ''Drizzle''\<rparr>
       = scoreSum \<lparr>temp = Fin 22, humidity = Fin 45, wind = Fin 3, condition = ''Clear''\<rparr>"
proof -
  let ?clear = "\<lparr>temp = Fin 22, humidity = Fin 45, wind = Fin 3, condition = ''Clear''\<rparr>"
  have t: "js_includes ''Thunderstorm'' ''Thunder''" by simp
  have d: "\<not> (js_includes ''Drizzle'' ''Rain'' \<or> js_includes ''Drizzle'' ''Snow''
          \<or> js_includes ''Drizzle'' ''Thunder'')" by simp
  have c: "scoreSum ?clear = 10"
    by (simp add: scoreSum_def conditionMatch_def js_ge_def js_gt_def)
  from scoreWeather_condition_penalty [of "?clear\<lparr>condition := ''Thunderstorm''\<rparr>"] t
  have "scoreSum (?clear\<lparr>condition := ''Thunderstorm''\<rparr>) = scoreSum ?clear - 2
        \<and> scoreWeather (?clear\<lparr>condition := ''Thunderstorm''\<rparr>) = min 10 (max 0 (scoreSum ?clear - 2))"
    by simp
  moreover from scoreWeather_condition_penalty [of "?clear\<lparr>condition := ''Drizzle''\<rparr>"] d
  have "scoreSum (?clear\<lparr>condition := ''Drizzle''\<rparr>) = scoreSum ?clear"
    by simp
  ultimately show ?thesis using t d by (simp add: c)
qed

text \<open>
  C1 as stated fails: the condition \<open>rain\<close> contains Rain when letter case is ignored, yet
  no adjustment is applied, and the score is that of a clear sky.
\<close>

theorem scoreWeather_lowercase_rain_counterexample:
  "js_includesI ''rain'' ''Rain''
   \<and> scoreSum \<lparr>temp = Fin 22, humidity = Fin 45, wind = Fin 3, condition = ''rain''\<rparr>
       = scoreSum \<lparr>temp = Fin 22, humidity = Fin 45, wind = Fin 3, condition = ''Clear''\<rparr>
   \<and> scoreWeather \<lparr>temp = Fin 22, humidity = Fin 45, wind = Fin 3, condition = ''rain''\<rparr> = 10"
  by (simp add: scoreSum_def scoreWeather_def conditionMatch_def js_ge_def js_gt_def
      canonicalize_def char_eval)

section \<open>Properties of the alert, gear and cache rules\<close>

text \<open>
  C6. The alert rules do not cut each other short: for temperature 45, wind 20, humidity 90,
  condition Thunderstorm and air-quality index 5 the list holds, in this order, the extreme
  heat, strong wind, very high humidity, thunderstorm, poor air and hazardous air alerts,
  both air-quality alerts together, followed by the low-score alert exactly when the score
  passed in is below 3. So it has at least six pairwise different entries.
\<close>

theorem getSmartAlerts_independent:
  "getSmartAlerts \<lparr>temp = Fin 45, humidity = Fin 90, wind = Fin 20, condition = ''Thunderstorm''\<rparr>
       (Some (Fin 5)) score
     = [ExtremeHeat, StrongWind, VeryHighHumidity, ThunderstormWarning, PoorAir, HazardousAir]
       @ (if js_lt score (Fin 3) then [Challenging] else [])
   \<and> distinct (getSmartAlerts
        \<lparr>temp = Fin 45, humidity = Fin 90, wind = Fin 20, condition = ''Thunderstorm''\<rparr>
        (Some (Fin 5)) score)
   \<and> 6 \<le> length (getSmartAlerts
        \<lparr>temp = Fin 45, humidity = Fin 90, wind = Fin 20, condition = ''Thunderstorm''\<rparr>
        (Some (Fin 5)) score)"
  by (simp add: getSmartAlerts_def js_ge_def js_gt_def canonicalize_def char_eval)

text \<open>
  C8. For temperature 5, condition Clear and UV index 1 the gear list is the single entry
  Coat/Jacket; for temperature 20 with the same condition and UV index none of the first
  four rules fires and the list is the single fallback entry Comfortable Shoes.
\<close>

theorem gear_edge_cases:
  "gear (Fin 5) (Some ''Clear'') (Fin 1)
     = [\<lparr>item = ''Coat/Jacket'', reason = ''Chilly temperatures''\<rparr>]
   \<and> gear (Fin 20) (Some ''Clear'') (Fin 1)
     = [\<lparr>item = ''Comfortable Shoes'', reason = ''Good for walking''\<rparr>]"
  by (simp add: gear_def js_gt_def toLowerCase_def lowerChar_def char_eval)

text \<open>
  C5. For every key: a read of an absent key returns nothing; a read of an entry whose age
  (\<open>now\<close> minus its timestamp) is at most the 15-minute TTL returns the stored value and
  leaves the cache as it is; a read of an older entry returns nothing and removes the entry,
  so that every later read of the key returns nothing as well; a write replaces whatever
  the key held by the new value with the current time as timestamp, so a read within the
  TTL of the write returns the written value, and a read after it does not, nor does the
  read after that one.
\<close>

theorem cache_get_set:
  "(aiCache key = None \<longrightarrow> getCached now key aiCache = (None, aiCache))
   \<and> (\<forall>e. aiCache key = Some e \<and> now - ts e \<le> CACHE_TTL
          \<longrightarrow> getCached now key aiCache = (Some (data e), aiCache))
   \<and> (\<forall>e. aiCache key = Some e \<and> now - ts e > CACHE_TTL
          \<longrightarrow> getCached now key aiCache = (None, aiCache(key := None))
              \<and> (\<forall>later. getCached later key (snd (getCached now key aiCache))
                            = (None, aiCache(key := None))))
   \<and> setCache now key v aiCache = aiCache(key \<mapsto> \<lparr>data = v, ts = now\<rparr>)
   \<and> (later - now \<le> CACHE_TTL
        \<longrightarrow> fst (getCached later key (setCache now key v aiCache)) = Some v)
   \<and> (later - now > CACHE_TTL
        \<longrightarrow> fst (getCached later key (setCache now key v aiCache)) = None
            \<and> fst (getCached again key (snd (getCached later key (setCache now key v aiCache))))
                = None)"
  by (auto simp: getCached_def setCache_def)

theorem cache_get_set_witness:
  "getCached 5 ''oslo'' Map.empty = (None, Map.empty)
   \<and> getCached 2000 ''paris'' [''paris'' \<mapsto> \<lparr>data = ''x'', ts = 1000\<rparr>]
       = (Some ''x'', [''paris'' \<mapsto> \<lparr>data = ''x'', ts = 1000\<rparr>])
   \<and> getCached 901001 ''paris'' [''paris'' \<mapsto> \<lparr>data = ''x'', ts = 1000\<rparr>] = (None, Map.empty)
   \<and> fst (getCached 1000 ''paris'' (setCache 1000 ''paris'' ''x'' Map.empty)) = Some ''x''
   \<and> fst (getCached 901000 ''paris'' (setCache 1000 ''paris'' ''x'' Map.empty)) = Some ''x''
   \<and> fst (getCached 901001 ''paris'' (setCache 1000 ''paris'' ''x'' Map.empty)) = None
   \<and> fst (getCached 901002 ''paris''
        (snd (getCached 901001 ''paris'' (setCache 1000 ''paris'' ''x'' Map.empty)))) = None"
  using cache_get_set [of "Map.empty" "''oslo''" 5]
    cache_get_set [of "[''paris'' \<mapsto> \<lparr>data = ''x'', ts = 1000\<rparr>]" "''paris''" 2000]
    cache_get_set [of "[''paris'' \<mapsto> \<lparr>data = ''x'', ts = 1000\<rparr>]" "''paris''" 901001]
    cache_get_set [of "Map.empty" "''paris''" 1000 "''x''" 1000]
    cache_get_set [of "Map.empty" "''paris''" 1000 "''x''" 901000]
    cache_get_set [of "Map.empty" "''paris''" 1000 "''x''" 901001 901002]
  by (simp add: CACHE_TTL_def setCache_def)

text \<open>Lower-casing neither creates nor removes an underscore.\<close>

lemma lowerChar_underscore: "lowerChar c = CHR ''_'' \<longleftrightarrow> c = CHR ''_''"
proof -
  have "of_char c < (256::nat)" by simp
  show ?thesis
    by (auto simp: lowerChar_def Let_def char_of_eq_iff take_bit_eq_mod split: if_splits)
qed

lemma underscore_toLowerCase: "CHR ''_'' \<in> set (toLowerCase s) \<longleftrightarrow> CHR ''_'' \<in> set s"
proof -
  have "\<And>c. (CHR ''_'' = lowerChar c) = (c = CHR ''_'')"
    using lowerChar_underscore by metis
  then show ?thesis by (auto simp: toLowerCase_def image_iff)
qed

lemma sep_unique:
  assumes eq: "a @ x # b = b @ x # a" and a: "x \<notin> set a" and b: "x \<notin> set b"
  shows "a = b"
proof -
  have nth_eq: "(a @ x # b) ! n = (b @ x # a) ! n" for n
    by (simp only: eq)
  have "length a = length b"
  proof (rule ccontr)
    assume ne: "length a \<noteq> length b"
    show False
    proof (cases "length a < length b")
      case True
      have "(a @ x # b) ! length a = x" by simp
      moreover have "(b @ x # a) ! length a = b ! length a" using True by (simp add: nth_append)
      ultimately have "b ! length a = x" using nth_eq [of "length a"] by (simp only:)
      with nth_mem [OF True] b show False by simp
    next
      case False
      with ne have lt: "length b < length a" by simp
      have "(b @ x # a) ! length b = x" by simp
      moreover have "(a @ x # b) ! length b = a ! length b" using lt by (simp add: nth_append)
      ultimately have "a ! length b = x" using nth_eq [of "length b"] by (simp only:)
      with nth_mem [OF lt] a show False by simp
    qed
  qed
  then show ?thesis
    using eq append_eq_append_conv [of a b "x # b" "x # a"] by blast
qed

text \<open>
  C7 (as the code has it). For every pair of city names without an underscore that differ
  after lower-casing, the key built from the pair in one order differs from the key built
  in the other order.
\<close>

theorem compareKey_order_sensitive:
  assumes "toLowerCase nameA \<noteq> toLowerCase nameB"
    and "CHR ''_'' \<notin> set nameA" and "CHR ''_'' \<notin> set nameB"
  shows "compareKey nameA nameB \<noteq> compareKey nameB nameA"
proof
  assume "compareKey nameA nameB = compareKey nameB nameA"
  then have "toLowerCase nameA @ CHR ''_'' # toLowerCase nameB
             = toLowerCase nameB @ CHR ''_'' # toLowerCase nameA"
    unfolding compareKey_def by (simp only: append_Cons append_Nil same_append_eq list.inject simp_thms)
  then have "toLowerCase nameA = toLowerCase nameB"
  proof (rule sep_unique)
    show "CHR ''_'' \<notin> set (toLowerCase nameA)"
      using assms(2) by (simp add: underscore_toLowerCase)
    show "CHR ''_'' \<notin> set (toLowerCase nameB)"
      using assms(3) by (simp add: underscore_toLowerCase)
  qed
  with assms(1) show False by simp
qed


theorem compareKey_order_sensitive_witness:
  "toLowerCase ''Paris'' \<noteq> toLowerCase ''London''
   \<and> CHR ''_'' \<notin> set ''Paris'' \<and> CHR ''_'' \<notin> set ''London''
   \<and> compareKey ''Paris'' ''London'' \<noteq> compareKey ''London'' ''Paris''
   \<and> compareKey ''Paris'' ''London'' = ''compare_paris_london''"
proof -
  have h1: "toLowerCase ''Paris'' \<noteq> toLowerCase ''London''"
    by (simp add: toLowerCase_def)
  have h2: "CHR ''_'' \<notin> set ''Paris''" and h3: "CHR ''_'' \<notin> set ''London''" by simp_all
  have "compareKey ''Paris'' ''London'' = ''compare_paris_london''"
    by (simp add: compareKey_def toLowerCase_def lowerChar_def char_eval)
  with h1 h2 h3 compareKey_order_sensitive [OF h1 h2 h3] show ?thesis by blast
qed


text \<open>
  C7 as stated fails: the names \<open>x\<close> and \<open>x_x\<close> differ after lower-casing, but the
  separator is itself an underscore and both orders give the key \<open>compare_x_x_x\<close>.
\<close>

theorem compareKey_collision_counterexample:
  "toLowerCase ''x'' \<noteq> toLowerCase ''x_x'' \<and> compareKey ''x'' ''x_x'' = compareKey ''x_x'' ''x''"
  by (simp add: compareKey_def toLowerCase_def lowerChar_def char_eval)

section \<open>Properties of the travel advice parser\<close>

text \<open>
  C3. Parsing the sample advice text gives the one place and the one nearby place with
  their descriptions and the three free texts as written, and the tips shown are the
  clothing and the food tip only: the alert \<open>None\<close> is kept in the parsed value and left
  out of the tips.
\<close>

theorem renderTravelAdvice_example:
  "renderTravelAdvice
     ''PLACES:\<newline>1. Eiffel Tower - Iconic landmark\<newline>NEARBY:\<newline>1. Versailles - 20km, royal palace\<newline>WEAR: Light jacket\<newline>EAT: Croissant at a cafe\<newline>ALERT: None''
   = \<lparr>places = [\<lparr>name = ''Eiffel Tower'', desc = ''Iconic landmark''\<rparr>],
      nearby = [\<lparr>name = ''Versailles'', desc = ''20km, royal palace''\<rparr>],
      wear = ''Light jacket'', eat = ''Croissant at a cafe'', alert = ''None'',
      tips = [(CoatIcon, ''Light jacket''), (PlateIcon, ''Croissant at a cafe'')]\<rparr>"
  by code_simp

text \<open>The loop on a line that is no label line, and on a label line.\<close>

lemma sectionMatch_Nil: "sectionMatch [] = None"
  by (simp add: sectionMatch_def afterLabel_def)

lemma scanLine_label:
  assumes "sectionMatch (trim l) = Some (k, rest)"
  shows "scanLine st l = (Some k, (snd st)(k \<mapsto> (if rest \<noteq> [] then [rest] else [])))"
proof -
  from assms have "trim l \<noteq> []" by (auto simp: sectionMatch_Nil)
  with assms show ?thesis by (simp add: scanLine_def)
qed

lemma scanLine_outside: "sectionMatch (trim l) = None \<Longrightarrow> scanLine (None, m) l = (None, m)"
  by (simp add: scanLine_def Let_def)

lemma scanLine_inside:
  assumes "sectionMatch (trim l) = None"
  shows "scanLine (Some k, m(k \<mapsto> acc)) l
         = (Some k, m(k \<mapsto> acc @ (if trim l = [] then [] else [trim l])))"
  using assms by (simp add: scanLine_def Let_def)

lemma foldl_scanLine_outside:
  "list_all (\<lambda>l. sectionMatch (trim l) = None) ls \<Longrightarrow> foldl scanLine (None, m) ls = (None, m)"
  by (induction ls) (simp_all add: scanLine_outside)

lemma foldl_scanLine_inside:
  "list_all (\<lambda>l. sectionMatch (trim l) = None) ls \<Longrightarrow>
   foldl scanLine (Some k, m(k \<mapsto> acc)) ls
     = (Some k, m(k \<mapsto> acc @ filter (\<lambda>t. t \<noteq> []) (map trim ls)))"
proof (induction ls arbitrary: acc)
  case Nil
  show ?case by simp
next
  case (Cons l ls)
  then have l: "sectionMatch (trim l) = None"
    and ls: "list_all (\<lambda>l. sectionMatch (trim l) = None) ls" by simp_all
  let ?acc = "acc @ (if trim l = [] then [] else [trim l])"
  have "foldl scanLine (Some k, m(k \<mapsto> acc)) (l # ls)
        = foldl scanLine (Some k, m(k \<mapsto> ?acc)) ls"
    by (simp only: foldl_Cons scanLine_inside [OF l])
  also have "\<dots> = (Some k, m(k \<mapsto> ?acc @ filter (\<lambda>t. t \<noteq> []) (map trim ls)))"
    by (rule Cons.IH [OF ls])
  also have "?acc @ filter (\<lambda>t. t \<noteq> []) (map trim ls)
             = acc @ filter (\<lambda>t. t \<noteq> []) (map trim (l # ls))"
    by simp
  finally show ?case .
qed

text \<open>The section of a key evolves from the current key and that section alone.\<close>

lemma scanLine_agree:
  assumes "fst s1 = fst s2" and "snd s1 k = snd s2 k"
  shows "fst (scanLine s1 x) = fst (scanLine s2 x) \<and> snd (scanLine s1 x) k = snd (scanLine s2 x) k"
  using assms by (auto simp: scanLine_def Let_def split: option.splits)

lemma foldl_scanLine_agree:
  assumes "fst s1 = fst s2" and "snd s1 k = snd s2 k"
  shows "snd (foldl scanLine s1 xs) k = snd (foldl scanLine s2 xs) k"
  using assms
proof (induction xs arbitrary: s1 s2)
  case Nil
  then show ?case by simp
next
  case (Cons x xs)
  from scanLine_agree [OF Cons.prems, of x]
  have "fst (scanLine s1 x) = fst (scanLine s2 x)"
    and "snd (scanLine s1 x) k = snd (scanLine s2 x) k" by simp_all
  from Cons.IH [OF this] show ?case by simp
qed

text \<open>With its failing steps written out, the parser still returns the parsed value.\<close>

lemma scanLine_exn_eq: "scanLine_exn st l = Inr (scanLine st l)"
  by (simp add: scanLine_exn_def scanLine_def Let_def orEmpty_def receiver_def andThen_def
      split: option.splits)

lemma scanLines_exn_eq: "scanLines_exn st ls = Inr (foldl scanLine st ls)"
  by (induction ls arbitrary: st) (simp_all add: scanLine_exn_eq andThen_def)

lemma scanSections_exn_eq: "scanSections_exn s = Inr (scanSections s)"
  by (simp add: scanSections_exn_def scanSections_def scanLines_exn_eq andThen_def)

lemma parsePlaces_exn_eq: "parsePlaces_exn ls = Inr (parsePlaces ls)"
  by (simp add: parsePlaces_exn_def parsePlaces_def orEmpty_def receiver_def andThen_def
      split: option.splits)

lemma freeText_exn_eq: "freeText_exn ls = Inr (freeText ls)"
  by (simp add: freeText_exn_def freeText_def orEmpty_def receiver_def andThen_def
      split: option.splits)

text \<open>
  C4. The parser never fails: for every text, the run with the failing steps of JavaScript
  written out ends without a TypeError and returns the parsed value, because every
  \<open>push\<close>, \<open>map\<close> and \<open>join\<close> is made on a list that the guard before it has put in
  place. For every text in which no line is a label line (in particular every text without
  any label) the lines are dropped, the object of sections stays empty, all five sections
  of the parsed value are empty, and no tip is shown.
\<close>

theorem renderTravelAdvice_total:
  "renderTravelAdvice_exn text = Inr (renderTravelAdvice text)
   \<and> (list_all (\<lambda>l. sectionMatch (trim l) = None) (splitLines text) \<longrightarrow>
        scanSections text = Map.empty
        \<and> renderTravelAdvice_exn text
            = Inr \<lparr>places = [], nearby = [], wear = [], eat = [], alert = [], tips = []\<rparr>)"
proof -
  have total: "renderTravelAdvice_exn text = Inr (renderTravelAdvice text)"
    by (simp add: renderTravelAdvice_exn_def renderTravelAdvice_def scanSections_exn_eq
        parsePlaces_exn_eq freeText_exn_eq andThen_def Let_def)
  have "scanSections text = Map.empty
        \<and> renderTravelAdvice text
            = \<lparr>places = [], nearby = [], wear = [], eat = [], alert = [], tips = []\<rparr>"
    if no: "list_all (\<lambda>l. sectionMatch (trim l) = None) (splitLines text)"
  proof -
    have s: "scanSections text = Map.empty"
      using foldl_scanLine_outside [OF no, of Map.empty] by (simp add: scanSections_def)
    have "freeText None = []" by (simp add: freeText_def removeStars_def trim_def)
    moreover have "parsePlaces None = []" by (simp add: parsePlaces_def)
    moreover have "tipsOf [] [] [] = []" by (simp add: tipsOf_def)
    ultimately show ?thesis using s by (simp add: renderTravelAdvice_def)
  qed
  with total show ?thesis by simp
qed

theorem renderTravelAdvice_total_witness:
  "list_all (\<lambda>l. sectionMatch (trim l) = None)
     (splitLines ''It is sunny in Paris today.\<newline>Places to see: the Louvre - a museum\<newline>'')
   \<and> renderTravelAdvice_exn ''It is sunny in Paris today.\<newline>Places to see: the Louvre - a museum\<newline>''
       = Inr \<lparr>places = [], nearby = [], wear = [], eat = [], alert = [], tips = []\<rparr>
   \<and> renderTravelAdvice_exn ''2. Louvre\<newline>EAT: bread\<newline>and *cheese*\<newline>places: 1. Seine - walk''
       = Inr \<lparr>places = [\<lparr>name = ''Seine'', desc = ''walk''\<rparr>], nearby = [], wear = [],
              eat = ''bread and cheese'', alert = [],
              tips = [(PlateIcon, ''bread and cheese'')]\<rparr>"
proof -
  let ?plain = "''It is sunny in Paris today.\<newline>Places to see: the Louvre - a museum\<newline>''"
  let ?mixed = "''2. Louvre\<newline>EAT: bread\<newline>and *cheese*\<newline>places: 1. Seine - walk''"
  have h: "list_all (\<lambda>l. sectionMatch (trim l) = None) (splitLines ?plain)"
    by code_simp
  have m: "renderTravelAdvice ?mixed
       = \<lparr>places = [\<lparr>name = ''Seine'', desc = ''walk''\<rparr>], nearby = [], wear = [],
              eat = ''bread and cheese'', alert = [],
              tips = [(PlateIcon, ''bread and cheese'')]\<rparr>"
    by code_simp
  from renderTravelAdvice_total [of ?plain] h
  have p: "renderTravelAdvice_exn ?plain
       = Inr \<lparr>places = [], nearby = [], wear = [], eat = [], alert = [], tips = []\<rparr>"
    by blast
  from renderTravelAdvice_total [of ?mixed]
  have "renderTravelAdvice_exn ?mixed = Inr (renderTravelAdvice ?mixed)"
    by blast
  then have q: "renderTravelAdvice_exn ?mixed
       = Inr \<lparr>places = [\<lparr>name = ''Seine'', desc = ''walk''\<rparr>], nearby = [], wear = [],
              eat = ''bread and cheese'', alert = [],
              tips = [(PlateIcon, ''bread and cheese'')]\<rparr>"
    by (simp only: m)
  from h p q show ?thesis by blast
qed

text \<open>
  C10. When a label line for a key comes after other lines, whatever those earlier lines
  (earlier occurrences of the same label included) had put under the key is discarded:
  right after the label line the section holds the rest of that line alone, or nothing when
  the rest is empty; at the end the section is what the label line and the lines after it
  give on their own; and when no label line follows, it is the rest of the label line
  followed by the later non-blank lines, trimmed.
\<close>

theorem scanSections_repeated_label:
  assumes "splitLines text = pre @ l # post"
    and "sectionMatch (trim l) = Some (k, rest)"
  shows "snd (foldl scanLine (None, Map.empty) (pre @ [l])) k
           = Some (if rest \<noteq> [] then [rest] else [])
       \<and> scanSections text k = snd (foldl scanLine (None, Map.empty) (l # post)) k
       \<and> (list_all (\<lambda>x. sectionMatch (trim x) = None) post \<longrightarrow>
            scanSections text k
              = Some ((if rest \<noteq> [] then [rest] else []) @ filter (\<lambda>t. t \<noteq> []) (map trim post)))"
proof -
  let ?first = "if rest \<noteq> [] then [rest] else []"
  let ?st = "foldl scanLine (None, Map.empty) pre"
  have step: "scanLine st l = (Some k, (snd st)(k \<mapsto> ?first))" for st
    by (rule scanLine_label [OF assms(2)])
  have a: "snd (foldl scanLine (None, Map.empty) (pre @ [l])) k = Some ?first"
    by (simp add: step)
  have "snd (foldl scanLine (scanLine ?st l) post) k
        = snd (foldl scanLine (scanLine (None, Map.empty) l) post) k"
    by (rule foldl_scanLine_agree) (simp_all add: step)
  then have b: "scanSections text k = snd (foldl scanLine (None, Map.empty) (l # post)) k"
    by (simp add: scanSections_def assms(1))
  have c: "scanSections text k = Some (?first @ filter (\<lambda>t. t \<noteq> []) (map trim post))"
    if "list_all (\<lambda>x. sectionMatch (trim x) = None) post"
    using foldl_scanLine_inside [OF that, of k Map.empty ?first] b by (simp add: step)
  from a b c show ?thesis by blast
qed

theorem scanSections_repeated_label_witness:
  "splitLines ''WEAR: coat\<newline>and scarf\<newline>wear:\<newline>hat''
     = [''WEAR: coat'', ''and scarf''] @ ''wear:'' # [''hat'']
   \<and> sectionMatch (trim ''wear:'') = Some (WEAR, [])
   \<and> snd (foldl scanLine (None, Map.empty) ([''WEAR: coat'', ''and scarf''] @ [''wear:''])) WEAR
       = Some []
   \<and> scanSections ''WEAR: coat\<newline>and scarf\<newline>wear:\<newline>hat'' WEAR = Some [''hat'']"
proof -
  have h1: "splitLines ''WEAR: coat\<newline>and scarf\<newline>wear:\<newline>hat''
            = [''WEAR: coat'', ''and scarf''] @ ''wear:'' # [''hat'']"
    by code_simp
  have h2: "sectionMatch (trim ''wear:'') = Some (WEAR, [])"
    by code_simp
  have h3: "list_all (\<lambda>x. sectionMatch (trim x) = None) [''hat'']"
    by code_simp
  have h4: "filter (\<lambda>t. t \<noteq> []) (map trim [''hat'']) = [''hat'']"
    by code_simp
  note T = scanSections_repeated_label [OF h1 h2]
  from T have c1: "snd (foldl scanLine (None, Map.empty) ([''WEAR: coat'', ''and scarf''] @ [''wear:''])) WEAR
       = Some []"
    by (simp only: simp_thms if_False)
  from T h3 have "scanSections ''WEAR: coat\<newline>and scarf\<newline>wear:\<newline>hat'' WEAR
      = Some ((if ([]::string) \<noteq> [] then [[]] else []) @ filter (\<lambda>t. t \<noteq> []) (map trim [''hat'']))"
    by blast
  then have c2: "scanSections ''WEAR: coat\<newline>and scarf\<newline>wear:\<newline>hat'' WEAR = Some [''hat'']"
    by (simp only: h4 simp_thms if_False append_Nil)
  from h1 h2 c1 c2 show ?thesis by blast
qed

section \<open>Properties of the verdict parser\<close>

lemma lazyRest_upTo: "lazyRest nxt s = upTo nxt s"
  by (induction s) (simp_all add: atStop_def)

lemma wsCapture_skip:
  "dropWhile isSpace r = c # cs \<Longrightarrow> wsCapture nxt r = Some (c # lazyRest nxt cs)"
  by (induction r) (auto simp: lazyCapture_def split: if_splits)

lemma regexSearch_afterFirst:
  assumes "afterFirst lbl s = Some r" and "dropWhile isSpace r = c # cs"
  shows "regexSearch lbl nxt s = Some (c # lazyRest nxt cs)"
  using assms
proof (induction s)
  case Nil
  then show ?case by (auto split: if_splits)
next
  case (Cons x xs)
  show ?case
  proof (cases "startsWith (x # xs) lbl")
    case True
    with Cons.prems have "r = drop (length lbl) (x # xs)" by simp
    with True Cons.prems(2) show ?thesis
      by (simp add: matchAt_def wsCapture_skip)
  next
    case False
    with Cons show ?thesis by (simp add: matchAt_def)
  qed
qed

lemma upTo_REASON_space:
  "isSpace x \<Longrightarrow> upTo (Some ''REASON:'') (x # xs) = x # upTo (Some ''REASON:'') xs"
  by (auto simp: isSpace_def)

lemma dropWhile_upTo:
  "dropWhile isSpace (upTo (Some ''REASON:'') r) = upTo (Some ''REASON:'') (dropWhile isSpace r)"
proof (induction r)
  case Nil
  show ?case by simp
next
  case (Cons x xs)
  show ?case
  proof (cases "isSpace x")
    case True
    with Cons show ?thesis by (simp only: upTo_REASON_space dropWhile.simps if_True)
  next
    case False
    then show ?thesis by simp
  qed
qed

text \<open>
  Where the region of the winner is not empty, the pattern of the code captures exactly
  that region: the two differ only on texts whose winner region is empty.
\<close>

lemma winnerOf_specWinner:
  assumes "specWinner s \<noteq> []"
  shows "winnerOf s = specWinner s"
proof -
  let ?nxt = "Some ''REASON:''"
  from assms obtain r where r: "afterFirst ''WINNER:'' s = Some r"
    and ne: "trim (upTo ?nxt r) \<noteq> []"
    by (auto simp: specWinner_def specRegion_def split: option.splits)
  from ne have "upTo ?nxt (dropWhile isSpace r) \<noteq> []"
    by (auto simp: trim_def dropWhile_upTo)
  then obtain c cs where d: "dropWhile isSpace r = c # cs"
    by (cases "dropWhile isSpace r") auto
  from d have nsp: "\<not> isSpace c" by (metis dropWhile_eq_Cons_conv)
  have up: "upTo ?nxt (c # cs) = c # upTo ?nxt cs"
    using \<open>upTo ?nxt (dropWhile isSpace r) \<noteq> []\<close> d by (auto split: if_splits)
  have "winnerOf s = trim (c # lazyRest ?nxt cs)"
    by (simp add: winnerOf_def field_def regexSearch_afterFirst [OF r d])
  also have "\<dots> = trim (upTo ?nxt (c # cs))"
    by (simp only: lazyRest_upTo up)
  also have "\<dots> = trim (upTo ?nxt r)"
  proof -
    have a: "dropWhile isSpace (upTo ?nxt (c # cs)) = upTo ?nxt (c # cs)"
      using nsp by (simp only: up dropWhile.simps if_False)
    have b: "dropWhile isSpace (upTo ?nxt r) = upTo ?nxt (c # cs)"
      by (simp only: dropWhile_upTo d)
    show ?thesis by (simp only: trim_def a b)
  qed
  finally show ?thesis
    by (simp add: specWinner_def specRegion_def r)
qed

text \<open>
  C9. The fallback to the raw text is due whenever the winner does not resolve to a
  non-empty string. In the text below the region of \<open>WINNER:\<close> holds white space only,
  so the winner is empty and the raw text is due; but the white space that the pattern
  skips after the label runs to the end of the region, the group then has to take at least
  one character and takes the label \<open>REASON:\<close> with all that follows, and the card shows
  a structured view with the winner \<open>REASON: x\<close> instead of the raw text.
\<close>

theorem renderVerdict_swallows_next_label:
  "specWinner ''COMPARISON: a b\<newline>WINNER: \<newline>REASON: x'' = []
   \<and> winnerOf ''COMPARISON: a b\<newline>WINNER: \<newline>REASON: x'' = ''REASON: x''
   \<and> renderVerdict ''COMPARISON: a b\<newline>WINNER: \<newline>REASON: x''
       = Structured ''a b'' ''REASON: x'' ''x''
   \<and> renderVerdict ''COMPARISON: a b\<newline>WINNER: \<newline>REASON: x''
       \<noteq> RawText (lineBreaks ''COMPARISON: a b\<newline>WINNER: \<newline>REASON: x'')"
  by code_simp

end
